theory Spec2Isabelle
  imports Complex_Main "HOL-Library.Sublist"
begin

section \<open>Quadrant fallback orchestrator\<close>

text \<open>
  \<^verbatim>\<open>fetchQuadrantWithFallback(lat, lng)\<close> of the quadrant service tries three geometry
  tiers, each inside its own \<^verbatim>\<open>try { ... } catch (error) { console.warn(...) }\<close> block.
  The tiers talk to the network and to module-level caches, so they are parameters here:
  a tier maps the outside world to an outcome (it threw, it returned \<^verbatim>\<open>null\<close>, it returned
  a result) and a new world. Whatever a tier throws is an \<^verbatim>\<open>Error\<close> object (one the
  tier constructs, or one of \<^verbatim>\<open>fetch\<close> and the runtime), of which the handlers read
  the message. JavaScript numbers are idealised as reals.
\<close>

type_synonym number = real

record js_error =
  message :: string

datatype 'r outcome = Throws js_error | Returns "'r option"

type_synonym ('w, 'r) tier = "number \<Rightarrow> number \<Rightarrow> 'w \<Rightarrow> 'r outcome \<times> 'w"

datatype source_tag = official | alternative | offline

text \<open>
  The lines the orchestrator itself writes to the console, in the order of the source:
  the announcement before a tier is called, the confirmation after it succeeded, the
  warning of its \<^verbatim>\<open>catch\<close> block (with the error's message), and the final
  "not found in any source" line.
\<close>

datatype console_line =
    Trying source_tag
  | Obtained source_tag
  | Failed source_tag string
  | NotFoundAnywhere

record 'w env =
  world :: 'w
  console :: "console_line list"

definition console_log :: "console_line \<Rightarrow> 'w env \<Rightarrow> 'w env" where
  "console_log l s = s\<lparr>console := console s @ [l]\<rparr>"

text \<open>
  The body of one \<^verbatim>\<open>try\<close> block: \<open>Inl e\<close> is an exception leaving the block,
  \<open>Inr (Some x)\<close> is \<^verbatim>\<open>return { ...result, source }\<close>, \<open>Inr None\<close> is falling out of
  the block because the tier's result was \<^verbatim>\<open>null\<close>.
\<close>

definition tier_body ::
  "source_tag \<Rightarrow> ('w, 'r) tier \<Rightarrow> number \<Rightarrow> number \<Rightarrow> 'w env
     \<Rightarrow> (js_error + ('r \<times> source_tag) option) \<times> 'w env" where
  "tier_body tag fetch lat lng s =
     (let s1 = console_log (Trying tag) s in
      case fetch lat lng (world s1) of
        (Throws e, w) \<Rightarrow> (Inl e, s1\<lparr>world := w\<rparr>)
      | (Returns None, w) \<Rightarrow> (Inr None, s1\<lparr>world := w\<rparr>)
      | (Returns (Some result), w) \<Rightarrow>
          (Inr (Some (result, tag)), console_log (Obtained tag) (s1\<lparr>world := w\<rparr>)))"

text \<open>The \<^verbatim>\<open>catch\<close> block: it reads the error's message, warns, and falls through.\<close>

definition tier_catch ::
  "source_tag \<Rightarrow> js_error \<Rightarrow> 'w env \<Rightarrow> (js_error + ('r \<times> source_tag) option) \<times> 'w env" where
  "tier_catch tag e s = (Inr None, console_log (Failed tag (message e)) s)"

definition try_catch ::
  "('s \<Rightarrow> (js_error + 'a) \<times> 's) \<Rightarrow> (js_error \<Rightarrow> 's \<Rightarrow> (js_error + 'a) \<times> 's)
     \<Rightarrow> 's \<Rightarrow> (js_error + 'a) \<times> 's" where
  "try_catch body handler s =
     (case body s of
        (Inl e, s') \<Rightarrow> handler e s'
      | (Inr v, s') \<Rightarrow> (Inr v, s'))"

text \<open>
  Statement sequencing inside the function: an exception or a \<^verbatim>\<open>return\<close> of the
  first statement ends the function, otherwise the rest runs.
\<close>

definition or_else ::
  "('s \<Rightarrow> (js_error + 'a option) \<times> 's) \<Rightarrow> ('s \<Rightarrow> (js_error + 'a option) \<times> 's)
     \<Rightarrow> 's \<Rightarrow> (js_error + 'a option) \<times> 's" where
  "or_else first rest s =
     (case first s of
        (Inr None, s') \<Rightarrow> rest s'
      | (r, s') \<Rightarrow> (r, s'))"

definition fetchQuadrantWithFallback ::
  "('w, 'r) tier \<Rightarrow> ('w, 'r) tier \<Rightarrow> ('w, 'r) tier \<Rightarrow> number \<Rightarrow> number \<Rightarrow> 'w env
     \<Rightarrow> (js_error + ('r \<times> source_tag) option) \<times> 'w env" where
  "fetchQuadrantWithFallback fetchFromOfficialAPI fetchFromAlternativeAPI fetchFromOfflineData lat lng =
     or_else (try_catch (tier_body official fetchFromOfficialAPI lat lng) (tier_catch official))
    (or_else (try_catch (tier_body alternative fetchFromAlternativeAPI lat lng) (tier_catch alternative))
    (or_else (try_catch (tier_body offline fetchFromOfflineData lat lng) (tier_catch offline))
             (\<lambda>s. (Inr None, console_log NotFoundAnywhere s))))"

text \<open>A tier "fails or finds nothing" when it throws or returns \<^verbatim>\<open>null\<close>.\<close>

fun no_result :: "'r outcome \<Rightarrow> bool" where
  "no_result (Throws e) = True"
| "no_result (Returns None) = True"
| "no_result (Returns (Some r)) = False"

text \<open>What the console shows for a tier that produced no result.\<close>

fun failure_trace :: "source_tag \<Rightarrow> 'r outcome \<Rightarrow> console_line list" where
  "failure_trace tag (Throws e) = [Trying tag, Failed tag (message e)]"
| "failure_trace tag (Returns r) = [Trying tag]"


section \<open>Strings\<close>

text \<open>
  A JavaScript string is modelled as a list of 8-bit characters. The codes, names and
  telephone numbers the services handle are ASCII: \<^verbatim>\<open>toUpperCase\<close> maps the ASCII
  letters and leaves every other character as it is, and \<^verbatim>\<open>trim\<close> and \<^verbatim>\<open>\s\<close> know the
  ASCII white-space characters and the no-break space.
\<close>

definition is_digit :: "char \<Rightarrow> bool" where
  "is_digit c = (c \<in> set ''0123456789'')"

definition is_upper :: "char \<Rightarrow> bool" where
  "is_upper c = (c \<in> set ''ABCDEFGHIJKLMNOPQRSTUVWXYZ'')"

definition is_space :: "char \<Rightarrow> bool" where
  "is_space c = (c \<in> set [CHR '' '', CHR 0x09, CHR 0x0A, CHR 0x0B, CHR 0x0C, CHR 0x0D, CHR 0xA0])"

definition upper_char :: "char \<Rightarrow> char" where
  "upper_char c =
     (case map_of (zip ''abcdefghijklmnopqrstuvwxyz'' ''ABCDEFGHIJKLMNOPQRSTUVWXYZ'') c of
        Some u \<Rightarrow> u
      | None \<Rightarrow> c)"

definition toUpperCase :: "string \<Rightarrow> string" where
  "toUpperCase s = map upper_char s"

definition trim :: "string \<Rightarrow> string" where
  "trim s = rev (dropWhile is_space (rev (dropWhile is_space s)))"

section \<open>Cached sources\<close>

text \<open>
  Each service keeps its snapshot in module-level variables and reloads it through
  \<^verbatim>\<open>fetch\<close>. A service's state is a record of its variables; the network is the outside
  world \<open>'w\<close>, threaded beside it, and \<^verbatim>\<open>Date.now()\<close> is the argument \<open>now\<close>
  (milliseconds). The asynchronous calls are modelled as run to completion, one after
  the other.
\<close>

subsection \<open>National directory service\<close>

record DirectorioCuadrante =
  departamento :: string
  ciudad_municipio :: string
  unidad_dir :: string
  tipo_unidad :: string
  codigo_cuadrante :: string
  cuadrante_dir :: string
  numero_celular_cuadrante :: string

text \<open>
  What \<^verbatim>\<open>await fetch(url)\<close> followed by \<^verbatim>\<open>await response.json()\<close> can yield: the
  request is rejected (transport error, abort after the 20 s timeout), or a response
  arrives with its \<^verbatim>\<open>ok\<close> flag and status, whose body is not JSON, is JSON but not an
  array, or is an array of rows.
\<close>

datatype 'a json_body = InvalidJson js_error | NotAnArray | Rows "'a list"

datatype 'a http_result = Rejected js_error | Response bool nat "'a json_body"

record soda_vars =
  cachedDirectorio :: "DirectorioCuadrante list"
  directorioLoaded :: bool
  lastLoadAttempt :: int

definition RELOAD_INTERVAL :: int where
  "RELOAD_INTERVAL = 3600000"

text \<open>
  \<^verbatim>\<open>loadDirectorioFromSODA\<close>: every exception of the \<^verbatim>\<open>try\<close> block (a rejected
  fetch, the \<^verbatim>\<open>throw new Error(`HTTP ...`)\<close> of a response that is not ok, a body that
  does not parse) ends in the \<^verbatim>\<open>catch\<close> block, which returns \<^verbatim>\<open>[]\<close>.
\<close>

definition loadDirectorioFromSODA ::
  "('w \<Rightarrow> DirectorioCuadrante http_result \<times> 'w) \<Rightarrow> 'w \<Rightarrow> DirectorioCuadrante list \<times> 'w" where
  "loadDirectorioFromSODA fetch w =
     (case fetch w of
        (Rejected e, w') \<Rightarrow> ([], w')
      | (Response ok status body, w') \<Rightarrow>
          (if \<not> ok then ([], w')
           else case body of
                  InvalidJson e \<Rightarrow> ([], w')
                | NotAnArray \<Rightarrow> ([], w')
                | Rows data \<Rightarrow> (if data = [] then ([], w') else (data, w'))))"

definition loadDirectorio ::
  "('w \<Rightarrow> DirectorioCuadrante http_result \<times> 'w) \<Rightarrow> int \<Rightarrow> soda_vars \<times> 'w \<Rightarrow> soda_vars \<times> 'w" where
  "loadDirectorio fetch now sw =
     (case sw of (st, w) \<Rightarrow>
        if cachedDirectorio st \<noteq> [] \<and> now - lastLoadAttempt st < RELOAD_INTERVAL then (st, w)
        else
          let st1 = st\<lparr>lastLoadAttempt := now\<rparr> in
          case loadDirectorioFromSODA fetch w of (directorio, w') \<Rightarrow>
            if directorio \<noteq> []
            then (st1\<lparr>cachedDirectorio := directorio, directorioLoaded := True\<rparr>, w')
            else (st1, w'))"

text \<open>\<^verbatim>\<open>s.replace(/\D/g, '')\<close> keeps the ASCII digits of a string.\<close>

definition only_digits :: "string \<Rightarrow> string" where
  "only_digits s = filter is_digit s"

text \<open>
  A reader of the directory: \<^verbatim>\<open>findCuadranteByTelefono\<close> first awaits
  \<^verbatim>\<open>loadDirectorio()\<close>, then searches the snapshot.
\<close>

definition findCuadranteByTelefono ::
  "('w \<Rightarrow> DirectorioCuadrante http_result \<times> 'w) \<Rightarrow> int \<Rightarrow> string \<Rightarrow> soda_vars \<times> 'w
     \<Rightarrow> DirectorioCuadrante option \<times> soda_vars \<times> 'w" where
  "findCuadranteByTelefono fetch now telefono sw =
     (case loadDirectorio fetch now sw of (st, w) \<Rightarrow>
        let telefonoNorm = only_digits telefono in
        (find (\<lambda>d. only_digits (numero_celular_cuadrante d) = telefonoNorm) (cachedDirectorio st),
         st, w))"

text \<open>A refresh that brought nothing: the cases in which the loader returns \<^verbatim>\<open>[]\<close>.\<close>

fun request_failed :: "'a http_result \<Rightarrow> bool" where
  "request_failed (Rejected e) = True"
| "request_failed (Response ok status (InvalidJson e)) = True"
| "request_failed (Response ok status NotAnArray) = True"
| "request_failed (Response ok status (Rows data)) = (\<not> ok \<or> data = [])"

subsection \<open>WebMap CAI index service\<close>

record RealCAI =
  id_cai :: string
  nombre :: string
  direccion :: string
  telefono :: string
  email :: string
  horario :: string
  codigoCuadrante :: string
  lat :: number
  lng :: number
  localidad :: string
  upz :: string

record cai_vars =
  cachedCAIs :: "RealCAI list"
  caiLoadedFromAPI :: bool
  caiLoadedFromLocal :: bool
  lastLoadAttempt_cai :: int

definition RELOAD_INTERVAL_cai :: int where
  "RELOAD_INTERVAL_cai = 300000"

text \<open>
  \<^verbatim>\<open>loadCAIs\<close>. Its two loaders (\<^verbatim>\<open>loadCAIsFromLocal\<close>, \<^verbatim>\<open>loadCAIsFromArcGIS\<close>) catch
  their own errors and return a possibly empty array; they are parameters. The first
  step returns \<open>True\<close> when the function returned from inside it.
\<close>

definition loadCAIs_local ::
  "('w \<Rightarrow> RealCAI list \<times> 'w) \<Rightarrow> cai_vars \<times> 'w \<Rightarrow> bool \<times> cai_vars \<times> 'w" where
  "loadCAIs_local loadCAIsFromLocal sw =
     (case sw of (st, w) \<Rightarrow>
        if \<not> caiLoadedFromLocal st then
          (case loadCAIsFromLocal w of (localCAIs, w') \<Rightarrow>
             if localCAIs \<noteq> []
             then (True, st\<lparr>cachedCAIs := localCAIs, caiLoadedFromLocal := True\<rparr>, w')
             else (False, st, w'))
        else (False, st, w))"

definition loadCAIs_arcgis ::
  "('w \<Rightarrow> RealCAI list \<times> 'w) \<Rightarrow> cai_vars \<times> 'w \<Rightarrow> cai_vars \<times> 'w" where
  "loadCAIs_arcgis loadCAIsFromArcGIS sw =
     (case sw of (st, w) \<Rightarrow>
        if \<not> caiLoadedFromAPI st then
          (case loadCAIsFromArcGIS w of (arcgisCAIs, w') \<Rightarrow>
             if arcgisCAIs \<noteq> []
             then (st\<lparr>cachedCAIs := arcgisCAIs, caiLoadedFromAPI := True\<rparr>, w')
             else (st, w'))
        else (st, w))"

definition loadCAIs ::
  "('w \<Rightarrow> RealCAI list \<times> 'w) \<Rightarrow> ('w \<Rightarrow> RealCAI list \<times> 'w) \<Rightarrow> int \<Rightarrow> cai_vars \<times> 'w
     \<Rightarrow> cai_vars \<times> 'w" where
  "loadCAIs loadCAIsFromLocal loadCAIsFromArcGIS now sw =
     (case sw of (st, w) \<Rightarrow>
        if cachedCAIs st \<noteq> [] \<and> now - lastLoadAttempt_cai st < RELOAD_INTERVAL_cai then (st, w)
        else
          case loadCAIs_local loadCAIsFromLocal (st\<lparr>lastLoadAttempt_cai := now\<rparr>, w) of
            (returned, sw1) \<Rightarrow>
              if returned then sw1 else loadCAIs_arcgis loadCAIsFromArcGIS sw1)"

section \<open>Distances and nearest-neighbour search\<close>

subsection \<open>Haversine distance\<close>




subsection \<open>The nearest entry within a cutoff\<close>



subsection \<open>WebMap index: \<^verbatim>\<open>findNearestCAI\<close> and the geometric fallback tier\<close>




subsection \<open>Equipment service: \<^verbatim>\<open>findEquipamientoByLocation\<close>\<close>







subsection \<open>Sample data\<close>




section \<open>Roster processing\<close>






















section \<open>Code grammar\<close>

subsection \<open>Regular expressions as backtracking matchers\<close>

text \<open>
  The regular expressions of the parsers are sequences of groups of fixed shape, some of
  them optional. A token tries to match at the front of the input and yields the matched
  text and the rest. A pattern is written in continuation-passing style, which is the
  backtracking of the JavaScript matcher: an optional group \<^verbatim>\<open>(X)?\<close> first tries to
  match \<^verbatim>\<open>X\<close> and continue; if the continuation fails it continues without the group,
  whose capture is then \<^verbatim>\<open>undefined\<close>. \<^verbatim>\<open>\d\<close> is an ASCII digit, \<^verbatim>\<open>[A-Z]\<close> an ASCII
  capital.
\<close>

type_synonym tok = "string \<Rightarrow> (string \<times> string) option"

text \<open>A literal text.\<close>

definition lit :: "string \<Rightarrow> tok" where
  "lit l s = (if take (length l) s = l then Some (l, drop (length l) s) else None)"

text \<open>\<^verbatim>\<open>X{n}\<close> for a character class \<^verbatim>\<open>X\<close>.\<close>

definition chars :: "nat \<Rightarrow> (char \<Rightarrow> bool) \<Rightarrow> tok" where
  "chars n P s =
     (if n \<le> length s \<and> list_all P (take n s) then Some (take n s, drop n s) else None)"

text \<open>Concatenation inside a group, and the alternative \<^verbatim>\<open>X|Y\<close> of two tokens.\<close>

definition then_tok :: "tok \<Rightarrow> tok \<Rightarrow> tok" where
  "then_tok t1 t2 s =
     (case t1 s of
        None \<Rightarrow> None
      | Some (m1, r1) \<Rightarrow> (case t2 r1 of None \<Rightarrow> None | Some (m2, r2) \<Rightarrow> Some (m1 @ m2, r2)))"

definition or_tok :: "tok \<Rightarrow> tok \<Rightarrow> tok" where
  "or_tok t1 t2 s = (case t1 s of Some r \<Rightarrow> Some r | None \<Rightarrow> t2 s)"

text \<open>A mandatory group, an optional group \<^verbatim>\<open>(X)?\<close>, and the end of input \<^verbatim>\<open>$\<close>.\<close>

definition req :: "tok \<Rightarrow> (string \<Rightarrow> string \<Rightarrow> 'a option) \<Rightarrow> string \<Rightarrow> 'a option" where
  "req t k s = (case t s of Some (m, r) \<Rightarrow> k m r | None \<Rightarrow> None)"

definition opt :: "tok \<Rightarrow> (string option \<Rightarrow> string \<Rightarrow> 'a option) \<Rightarrow> string \<Rightarrow> 'a option" where
  "opt t k s =
     (case (case t s of Some (m, r) \<Rightarrow> k (Some m) r | None \<Rightarrow> None) of
        Some a \<Rightarrow> Some a
      | None \<Rightarrow> k None s)"

definition eoi :: "'a \<Rightarrow> string \<Rightarrow> 'a option" where
  "eoi a s = (if s = [] then Some a else None)"

text \<open>
  A pattern without \<^verbatim>\<open>^\<close> is tried at every position from the left, the end of the
  input included; the first position that matches wins.
\<close>

fun search :: "(string \<Rightarrow> 'a option) \<Rightarrow> string \<Rightarrow> 'a option" where
  "search m [] = m []"
| "search m (c # cs) = (case m (c # cs) of Some r \<Rightarrow> Some r | None \<Rightarrow> search m cs)"

subsection \<open>The tokens of a SIVICC code\<close>

text \<open>
  \<^verbatim>\<open>[A-Z]{5}\<close>, \<^verbatim>\<open>MNVCC\<close>, \<^verbatim>\<open>[CDS]\d{2}\<close>, \<^verbatim>\<open>E\d{2}\<close>, \<^verbatim>\<open>C\d{2}\<close>,
  \<^verbatim>\<open>C\d{2}|S\d{2}\<close>, \<^verbatim>\<open>\d{6}\<close>.
\<close>

definition unit_tok :: tok where
  "unit_tok = chars 5 is_upper"

definition model_tok :: tok where
  "model_tok = lit ''MNVCC''"

definition is_CDS :: "char \<Rightarrow> bool" where
  "is_CDS c = (c \<in> set ''CDS'')"

definition district_tok :: tok where
  "district_tok = then_tok (chars 1 is_CDS) (chars 2 is_digit)"

definition station_tok :: tok where
  "station_tok = then_tok (lit ''E'') (chars 2 is_digit)"

definition cai_tok :: tok where
  "cai_tok = then_tok (lit ''C'') (chars 2 is_digit)"

definition subunit_tok :: tok where
  "subunit_tok = or_tok cai_tok (then_tok (lit ''S'') (chars 2 is_digit))"

definition serial_tok :: tok where
  "serial_tok = chars 6 is_digit"

text \<open>\<^verbatim>\<open>normalized.match(/(E\d{2})/)\<close>, the last resort of both parsers.\<close>

definition estacionMatch :: "string \<Rightarrow> string option" where
  "estacionMatch normalized = search (\<lambda>s. map_option fst (station_tok s)) normalized"

subsection \<open>\<^verbatim>\<open>parseSIVICCCode\<close> of the equipment service\<close>

record SIVICC =
  unidad :: "string option"
  modelo :: "string option"
  distrito :: "string option"
  estacion :: "string option"
  cai :: "string option"
  cuadrante :: "string option"
  estacionCAI :: "string option"

text \<open>\<^verbatim>\<open>/^(E\d{2})(C\d{2})?$/\<close>\<close>

definition sivicc_shortMatch :: "string \<Rightarrow> (string \<times> string option) option" where
  "sivicc_shortMatch =
     req station_tok (\<lambda>m1. opt cai_tok (\<lambda>m2. eoi (m1, m2)))"

text \<open>\<^verbatim>\<open>/^([A-Z]{5})?(MNVCC)?([CDS]\d{2})?(E\d{2})(C\d{2}|S\d{2})?(\d{6})?$/\<close>\<close>

definition sivicc_longMatch ::
  "string \<Rightarrow> (string option \<times> string option \<times> string option \<times> string \<times> string option \<times> string option) option" where
  "sivicc_longMatch =
     opt unit_tok (\<lambda>unidad. opt model_tok (\<lambda>modelo. opt district_tok (\<lambda>distrito.
     req station_tok (\<lambda>estacion. opt subunit_tok (\<lambda>subunidad. opt serial_tok (\<lambda>cuadrante.
     eoi (unidad, modelo, distrito, estacion, subunidad, cuadrante)))))))"

text \<open>The three objects the parser can return; a key that is not set reads \<^verbatim>\<open>undefined\<close>.\<close>

definition short_result :: "string \<Rightarrow> string \<times> string option \<Rightarrow> SIVICC" where
  "short_result normalized m =
     (case m of (m1, m2) \<Rightarrow>
        \<lparr>unidad = None, modelo = None, distrito = None, estacion = Some m1, cai = m2,
         cuadrante = None, estacionCAI = Some normalized\<rparr>)"

definition long_result ::
  "string option \<times> string option \<times> string option \<times> string \<times> string option \<times> string option \<Rightarrow> SIVICC" where
  "long_result m =
     (case m of (unidad', modelo', distrito', estacion', subunidad, cuadrante') \<Rightarrow>
        \<lparr>unidad = unidad', modelo = modelo', distrito = distrito', estacion = Some estacion',
         cai = subunidad, cuadrante = cuadrante',
         estacionCAI = Some (estacion' @ (case subunidad of Some x \<Rightarrow> x | None \<Rightarrow> []))\<rparr>)"

definition station_only :: "string \<Rightarrow> SIVICC" where
  "station_only m1 =
     \<lparr>unidad = None, modelo = None, distrito = None, estacion = Some m1, cai = None,
      cuadrante = None, estacionCAI = None\<rparr>"

definition parseSIVICCCode :: "string \<Rightarrow> SIVICC option" where
  "parseSIVICCCode code =
     (if code = [] then None
      else
        let normalized = trim (toUpperCase code) in
        case sivicc_shortMatch normalized of
          Some shortMatch \<Rightarrow> Some (short_result normalized shortMatch)
        | None \<Rightarrow>
            (case sivicc_longMatch normalized of
               Some longMatch \<Rightarrow> Some (long_result longMatch)
             | None \<Rightarrow> map_option station_only (estacionMatch normalized)))"


subsection \<open>\<^verbatim>\<open>parseQuadrantCode\<close> of the WebMap index service\<close>










text \<open>A text that is exactly one token.\<close>

definition is_token :: "tok \<Rightarrow> string \<Rightarrow> bool" where
  "is_token t s = (t s = Some (s, []))"

subsection \<open>\<^verbatim>\<open>findCAIByCuadrante\<close> of the WebMap index service\<close>







section \<open>Properties of the orchestrator\<close>

lemma tier_attempt_success:
  assumes "fetch plat plng (world s) = (Returns (Some r), w)"
  shows "try_catch (tier_body tag fetch plat plng) (tier_catch tag) s =
           (Inr (Some (r, tag)), \<lparr>world = w, console = console s @ [Trying tag, Obtained tag]\<rparr>)"
  using assms by (simp add: try_catch_def tier_body_def console_log_def)

lemma tier_attempt_failure:
  assumes "fetch plat plng (world s) = (oc, w)" and "no_result oc"
  shows "try_catch (tier_body tag fetch plat plng) (tier_catch tag) s =
           (Inr None, \<lparr>world = w, console = console s @ failure_trace tag oc\<rparr>)"
proof (cases oc)
  case (Throws e)
  with assms show ?thesis
    by (simp add: try_catch_def tier_body_def tier_catch_def console_log_def)
next
  case (Returns r)
  with assms have "r = None" by (cases r) simp_all
  with Returns assms show ?thesis
    by (simp add: try_catch_def tier_body_def console_log_def)
qed

lemma tier_attempt_never_throws:
  "fst (try_catch (tier_body tag fetch plat plng) (tier_catch tag) t) \<noteq> Inl e"
  by (simp add: try_catch_def tier_body_def tier_catch_def Let_def
           split: prod.splits outcome.splits option.splits sum.splits)

lemma or_else_never_throws:
  assumes "fst (first s) \<noteq> Inl e" and "\<forall>s'. fst (rest s') \<noteq> Inl e"
  shows "fst (or_else first rest s) \<noteq> Inl e"
  using assms by (auto simp: or_else_def split: prod.splits sum.splits option.splits)

text \<open>
  C1. The tiers are tried in the order official, alternative, offline, and the first
  success ends the function. When the official tier succeeds on the current world, the
  answer is its result tagged \<open>official\<close>, whatever the alternative and offline tiers
  would have answered; the world is the one the official tier left and the console holds
  only the official tier's two lines, so no later tier ran. The alternative tier is
  consulted exactly when the official one yielded nothing, on the world the official tier
  left behind, and likewise the offline tier after the alternative one.
\<close>

theorem fetchQuadrantWithFallback_tier_priority:
  "(fetchFromOfficialAPI plat plng (world s) = (Returns (Some r), w1) \<longrightarrow>
      fetchQuadrantWithFallback fetchFromOfficialAPI fetchFromAlternativeAPI fetchFromOfflineData plat plng s =
        (Inr (Some (r, official)),
         \<lparr>world = w1, console = console s @ [Trying official, Obtained official]\<rparr>))
   \<and> (fetchFromOfficialAPI plat plng (world s) = (o1, w1) \<and> no_result o1 \<and>
      fetchFromAlternativeAPI plat plng w1 = (Returns (Some r), w2) \<longrightarrow>
      fetchQuadrantWithFallback fetchFromOfficialAPI fetchFromAlternativeAPI fetchFromOfflineData plat plng s =
        (Inr (Some (r, alternative)),
         \<lparr>world = w2,
          console = console s @ failure_trace official o1 @ [Trying alternative, Obtained alternative]\<rparr>))
   \<and> (fetchFromOfficialAPI plat plng (world s) = (o1, w1) \<and> no_result o1 \<and>
      fetchFromAlternativeAPI plat plng w1 = (o2, w2) \<and> no_result o2 \<and>
      fetchFromOfflineData plat plng w2 = (Returns (Some r), w3) \<longrightarrow>
      fetchQuadrantWithFallback fetchFromOfficialAPI fetchFromAlternativeAPI fetchFromOfflineData plat plng s =
        (Inr (Some (r, offline)),
         \<lparr>world = w3,
          console = console s @ failure_trace official o1 @ failure_trace alternative o2
                      @ [Trying offline, Obtained offline]\<rparr>))"
proof (intro conjI impI)
  assume "fetchFromOfficialAPI plat plng (world s) = (Returns (Some r), w1)"
  then show "fetchQuadrantWithFallback fetchFromOfficialAPI fetchFromAlternativeAPI fetchFromOfflineData plat plng s =
        (Inr (Some (r, official)),
         \<lparr>world = w1, console = console s @ [Trying official, Obtained official]\<rparr>)"
    by (simp add: fetchQuadrantWithFallback_def or_else_def tier_attempt_success)
next
  assume a: "fetchFromOfficialAPI plat plng (world s) = (o1, w1) \<and> no_result o1 \<and>
      fetchFromAlternativeAPI plat plng w1 = (Returns (Some r), w2)"
  let ?s1 = "\<lparr>world = w1, console = console s @ failure_trace official o1\<rparr>"
  from a have 1: "try_catch (tier_body official fetchFromOfficialAPI plat plng) (tier_catch official) s
                    = (Inr None, ?s1)"
    by (simp add: tier_attempt_failure)
  from a have 2: "try_catch (tier_body alternative fetchFromAlternativeAPI plat plng) (tier_catch alternative) ?s1
                    = (Inr (Some (r, alternative)),
                       \<lparr>world = w2, console = console s @ failure_trace official o1
                                              @ [Trying alternative, Obtained alternative]\<rparr>)"
    using tier_attempt_success [of fetchFromAlternativeAPI plat plng ?s1 r w2 alternative] by simp
  show "fetchQuadrantWithFallback fetchFromOfficialAPI fetchFromAlternativeAPI fetchFromOfflineData plat plng s =
        (Inr (Some (r, alternative)),
         \<lparr>world = w2,
          console = console s @ failure_trace official o1 @ [Trying alternative, Obtained alternative]\<rparr>)"
    by (simp add: fetchQuadrantWithFallback_def or_else_def 1 2)
next
  assume a: "fetchFromOfficialAPI plat plng (world s) = (o1, w1) \<and> no_result o1 \<and>
      fetchFromAlternativeAPI plat plng w1 = (o2, w2) \<and> no_result o2 \<and>
      fetchFromOfflineData plat plng w2 = (Returns (Some r), w3)"
  let ?s1 = "\<lparr>world = w1, console = console s @ failure_trace official o1\<rparr>"
  let ?s2 = "\<lparr>world = w2, console = console s @ failure_trace official o1 @ failure_trace alternative o2\<rparr>"
  from a have 1: "try_catch (tier_body official fetchFromOfficialAPI plat plng) (tier_catch official) s
                    = (Inr None, ?s1)"
    by (simp add: tier_attempt_failure)
  from a have 2: "try_catch (tier_body alternative fetchFromAlternativeAPI plat plng) (tier_catch alternative) ?s1
                    = (Inr None, ?s2)"
    using tier_attempt_failure [of fetchFromAlternativeAPI plat plng ?s1 o2 w2 alternative] by simp
  from a have 3: "try_catch (tier_body offline fetchFromOfflineData plat plng) (tier_catch offline) ?s2
                    = (Inr (Some (r, offline)),
                       \<lparr>world = w3, console = console s @ failure_trace official o1
                                              @ failure_trace alternative o2
                                              @ [Trying offline, Obtained offline]\<rparr>)"
    using tier_attempt_success [of fetchFromOfflineData plat plng ?s2 r w3 offline] by simp
  show "fetchQuadrantWithFallback fetchFromOfficialAPI fetchFromAlternativeAPI fetchFromOfflineData plat plng s =
        (Inr (Some (r, offline)),
         \<lparr>world = w3,
          console = console s @ failure_trace official o1 @ failure_trace alternative o2
                      @ [Trying offline, Obtained offline]\<rparr>)"
    by (simp add: fetchQuadrantWithFallback_def or_else_def 1 2 3)
qed

text \<open>
  Witness for C1: the world is a counter of tier calls; both the official and the
  alternative tier would succeed at the point, and only the official one is called.
\<close>

theorem fetchQuadrantWithFallback_tier_priority_witness:
  "fetchQuadrantWithFallback
     (\<lambda>plat plng n. (Returns (Some ''Q-OFFICIAL''), n + 1))
     (\<lambda>plat plng n. (Returns (Some ''Q-ALTERNATIVE''), n + 100))
     (\<lambda>plat plng n. (Returns (Some ''Q-OFFLINE''), n + 10000))
     4.65 (-74.05) \<lparr>world = 0::nat, console = []\<rparr>
   = (Inr (Some (''Q-OFFICIAL'', official)),
      \<lparr>world = 1, console = [Trying official, Obtained official]\<rparr>)"
  using fetchQuadrantWithFallback_tier_priority
    [of "\<lambda>plat plng n. (Returns (Some ''Q-OFFICIAL''), n + 1)" "4.65" "-74.05"
        "\<lparr>world = 0::nat, console = []\<rparr>" "''Q-OFFICIAL''" "1"
        "\<lambda>plat plng n. (Returns (Some ''Q-ALTERNATIVE''), n + 100)"
        "\<lambda>plat plng n. (Returns (Some ''Q-OFFLINE''), n + 10000)"]
  by simp

text \<open>
  C2. Whatever the three tiers do, the orchestrator never ends with an exception; and
  when each tier in turn throws or returns \<^verbatim>\<open>null\<close>, it returns \<^verbatim>\<open>null\<close>, after
  having consulted all three in order.
\<close>

theorem fetchQuadrantWithFallback_all_fail_returns_null:
  "(\<forall>e. fst (fetchQuadrantWithFallback fetchFromOfficialAPI fetchFromAlternativeAPI fetchFromOfflineData plat plng s) \<noteq> Inl e)
   \<and> (fetchFromOfficialAPI plat plng (world s) = (o1, w1) \<and> no_result o1 \<and>
      fetchFromAlternativeAPI plat plng w1 = (o2, w2) \<and> no_result o2 \<and>
      fetchFromOfflineData plat plng w2 = (o3, w3) \<and> no_result o3 \<longrightarrow>
      fetchQuadrantWithFallback fetchFromOfficialAPI fetchFromAlternativeAPI fetchFromOfflineData plat plng s =
        (Inr None,
         \<lparr>world = w3,
          console = console s @ failure_trace official o1 @ failure_trace alternative o2
                      @ failure_trace offline o3 @ [NotFoundAnywhere]\<rparr>))"
proof (intro conjI impI allI)
  fix e
  show "fst (fetchQuadrantWithFallback fetchFromOfficialAPI fetchFromAlternativeAPI fetchFromOfflineData plat plng s) \<noteq> Inl e"
    unfolding fetchQuadrantWithFallback_def
    by (intro or_else_never_throws allI tier_attempt_never_throws) simp
next
  assume a: "fetchFromOfficialAPI plat plng (world s) = (o1, w1) \<and> no_result o1 \<and>
      fetchFromAlternativeAPI plat plng w1 = (o2, w2) \<and> no_result o2 \<and>
      fetchFromOfflineData plat plng w2 = (o3, w3) \<and> no_result o3"
  let ?s1 = "\<lparr>world = w1, console = console s @ failure_trace official o1\<rparr>"
  let ?s2 = "\<lparr>world = w2, console = console s @ failure_trace official o1 @ failure_trace alternative o2\<rparr>"
  let ?s3 = "\<lparr>world = w3, console = console s @ failure_trace official o1 @ failure_trace alternative o2
                      @ failure_trace offline o3\<rparr>"
  from a have 1: "try_catch (tier_body official fetchFromOfficialAPI plat plng) (tier_catch official) s
                    = (Inr None, ?s1)"
    by (simp add: tier_attempt_failure)
  from a have 2: "try_catch (tier_body alternative fetchFromAlternativeAPI plat plng) (tier_catch alternative) ?s1
                    = (Inr None, ?s2)"
    using tier_attempt_failure [of fetchFromAlternativeAPI plat plng ?s1 o2 w2 alternative] by simp
  from a have 3: "try_catch (tier_body offline fetchFromOfflineData plat plng) (tier_catch offline) ?s2
                    = (Inr None, ?s3)"
    using tier_attempt_failure [of fetchFromOfflineData plat plng ?s2 o3 w3 offline] by simp
  show "fetchQuadrantWithFallback fetchFromOfficialAPI fetchFromAlternativeAPI fetchFromOfflineData plat plng s =
        (Inr None,
         \<lparr>world = w3,
          console = console s @ failure_trace official o1 @ failure_trace alternative o2
                      @ failure_trace offline o3 @ [NotFoundAnywhere]\<rparr>)"
    by (simp add: fetchQuadrantWithFallback_def or_else_def 1 2 3 console_log_def)
qed

text \<open>
  Witness for C2: the official tier times out, the alternative tier has a transport
  error, the offline snapshot has no polygon containing the point.
\<close>

theorem fetchQuadrantWithFallback_all_fail_returns_null_witness:
  "fetchQuadrantWithFallback
     (\<lambda>plat plng n. (Throws \<lparr>message = ''The operation was aborted''\<rparr>, n + 1))
     (\<lambda>plat plng n. (Throws \<lparr>message = ''Failed to fetch''\<rparr>, n + 100))
     (\<lambda>plat plng n. (Returns (None :: string option), n + 10000))
     0 0 \<lparr>world = 0::nat, console = []\<rparr>
   = (Inr None,
      \<lparr>world = 10101,
       console = [Trying official, Failed official ''The operation was aborted'',
                  Trying alternative, Failed alternative ''Failed to fetch'',
                  Trying offline, NotFoundAnywhere]\<rparr>)"
  using fetchQuadrantWithFallback_all_fail_returns_null
    [of "\<lambda>plat plng n. (Throws \<lparr>message = ''The operation was aborted''\<rparr>, n + 1)"
        "\<lambda>plat plng n. (Throws \<lparr>message = ''Failed to fetch''\<rparr>, n + 100)"
        "\<lambda>plat plng n. (Returns (None :: string option), n + 10000)"
        "0" "0" "\<lparr>world = 0::nat, console = []\<rparr>"
        "Throws \<lparr>message = ''The operation was aborted''\<rparr>" "1"
        "Throws \<lparr>message = ''Failed to fetch''\<rparr>" "101"
        "Returns None" "10101"]
  by simp

section \<open>Properties of the cached sources\<close>

lemma loadDirectorioFromSODA_failed:
  "request_failed (fst (fetch w)) \<Longrightarrow> fst (loadDirectorioFromSODA fetch w) = []"
  by (cases "fetch w"; cases "fst (fetch w)")
     (auto simp: loadDirectorioFromSODA_def split: json_body.splits)

text \<open>
  C6. While the snapshot is non-empty and less than the reload interval has passed since
  the last load attempt, \<^verbatim>\<open>loadDirectorio\<close> and \<^verbatim>\<open>loadCAIs\<close> return at once: the
  service's variables and the outside world are exactly as before, whatever the loaders
  would have done, so no loader ran.
\<close>

theorem fresh_snapshot_is_reused:
  "(cachedDirectorio st \<noteq> [] \<and> now - lastLoadAttempt st < RELOAD_INTERVAL \<longrightarrow>
      loadDirectorio fetch now (st, w) = (st, w))
   \<and> (cachedCAIs ct \<noteq> [] \<and> now' - lastLoadAttempt_cai ct < RELOAD_INTERVAL_cai \<longrightarrow>
      loadCAIs loadCAIsFromLocal loadCAIsFromArcGIS now' (ct, w') = (ct, w'))"
  by (simp add: loadDirectorio_def loadCAIs_def)

text \<open>
  Witness for C6: the world counts requests; a snapshot loaded at time 1000 is reused
  59 minutes (directory) and 4 minutes (CAI index) later with the counter still at 7.
\<close>

theorem fresh_snapshot_is_reused_witness:
  "loadDirectorio (\<lambda>n. (Response True 200 (Rows []), Suc n)) 3541000
     (\<lparr>cachedDirectorio =
          [\<lparr>departamento = ''METROPOLITANA DE BOGOTA'', ciudad_municipio = ''BOGOTA D.C.'',
            unidad_dir = ''ESTACION DE POLICIA USAQUEN'', tipo_unidad = ''CAI CODITO'',
            codigo_cuadrante = ''MEBOGMNVCCC01E01C02000004'', cuadrante_dir = ''004'',
            numero_celular_cuadrante = ''3001234567''\<rparr>],
        directorioLoaded = True, lastLoadAttempt = 1000\<rparr>, 7::nat)
   = (\<lparr>cachedDirectorio =
          [\<lparr>departamento = ''METROPOLITANA DE BOGOTA'', ciudad_municipio = ''BOGOTA D.C.'',
            unidad_dir = ''ESTACION DE POLICIA USAQUEN'', tipo_unidad = ''CAI CODITO'',
            codigo_cuadrante = ''MEBOGMNVCCC01E01C02000004'', cuadrante_dir = ''004'',
            numero_celular_cuadrante = ''3001234567''\<rparr>],
        directorioLoaded = True, lastLoadAttempt = 1000\<rparr>, 7)
   \<and> loadCAIs (\<lambda>n. ([], Suc n)) (\<lambda>n. ([], Suc n)) 241000
     (\<lparr>cachedCAIs =
          [\<lparr>id_cai = ''CAI_1'', nombre = ''CAI CODITO'', direccion = [], telefono = [],
            email = [], horario = ''24 Horas'', codigoCuadrante = ''E01-02'',
            lat = 4.76, lng = -74.03, localidad = [], upz = []\<rparr>],
        caiLoadedFromAPI = False, caiLoadedFromLocal = True, lastLoadAttempt_cai = 1000\<rparr>, 7::nat)
   = (\<lparr>cachedCAIs =
          [\<lparr>id_cai = ''CAI_1'', nombre = ''CAI CODITO'', direccion = [], telefono = [],
            email = [], horario = ''24 Horas'', codigoCuadrante = ''E01-02'',
            lat = 4.76, lng = -74.03, localidad = [], upz = []\<rparr>],
        caiLoadedFromAPI = False, caiLoadedFromLocal = True, lastLoadAttempt_cai = 1000\<rparr>, 7)"
proof -
  let ?d = "\<lparr>departamento = ''METROPOLITANA DE BOGOTA'', ciudad_municipio = ''BOGOTA D.C.'',
            unidad_dir = ''ESTACION DE POLICIA USAQUEN'', tipo_unidad = ''CAI CODITO'',
            codigo_cuadrante = ''MEBOGMNVCCC01E01C02000004'', cuadrante_dir = ''004'',
            numero_celular_cuadrante = ''3001234567''\<rparr>"
  let ?c = "\<lparr>id_cai = ''CAI_1'', nombre = ''CAI CODITO'', direccion = [], telefono = [],
            email = [], horario = ''24 Horas'', codigoCuadrante = ''E01-02'',
            lat = 4.76, lng = -74.03, localidad = [], upz = []\<rparr>"
  show ?thesis
    using fresh_snapshot_is_reused
      [of "\<lparr>cachedDirectorio = [?d], directorioLoaded = True, lastLoadAttempt = 1000\<rparr>"
          3541000 "\<lambda>n. (Response True 200 (Rows []), Suc n)" "7::nat"
          "\<lparr>cachedCAIs = [?c], caiLoadedFromAPI = False, caiLoadedFromLocal = True,
            lastLoadAttempt_cai = 1000\<rparr>"
          241000 "\<lambda>n. ([], Suc n)" "\<lambda>n. ([], Suc n)" "7::nat"]
    by (simp add: RELOAD_INTERVAL_def RELOAD_INTERVAL_cai_def)
qed

text \<open>
  C7. When a snapshot exists and the refresh fails (rejected request, response that is
  not ok, body that is not a JSON array, or an empty array), \<^verbatim>\<open>loadDirectorio\<close> leaves
  the snapshot as it was, at any time \<open>now\<close>, stale or not; a reader called at that
  moment answers from the prior snapshot.
\<close>

theorem failed_refresh_keeps_snapshot:
  assumes "cachedDirectorio st \<noteq> []" and "request_failed (fst (fetch w))"
  shows "cachedDirectorio (fst (loadDirectorio fetch now (st, w))) = cachedDirectorio st
       \<and> fst (findCuadranteByTelefono fetch now tel (st, w)) =
           find (\<lambda>d. only_digits (numero_celular_cuadrante d) = only_digits tel)
                (cachedDirectorio st)"
proof -
  from assms(2) have "fst (loadDirectorioFromSODA fetch w) = []"
    by (rule loadDirectorioFromSODA_failed)
  then have keep: "cachedDirectorio (fst (loadDirectorio fetch now (st, w))) = cachedDirectorio st"
    by (cases "loadDirectorioFromSODA fetch w") (simp add: loadDirectorio_def)
  then show ?thesis
    by (cases "loadDirectorio fetch now (st, w)") (simp add: findCuadranteByTelefono_def)
qed

text \<open>
  Witness for C7: the snapshot is two hours old, the refresh is rejected, and the lookup
  by telephone still finds the row of the prior snapshot.
\<close>

theorem failed_refresh_keeps_snapshot_witness:
  "fst (findCuadranteByTelefono (\<lambda>n. (Rejected \<lparr>message = ''Failed to fetch''\<rparr>, Suc n)) 7201000
          ''300 123-4567''
          (\<lparr>cachedDirectorio =
               [\<lparr>departamento = ''METROPOLITANA DE BOGOTA'', ciudad_municipio = ''BOGOTA D.C.'',
                 unidad_dir = ''ESTACION DE POLICIA USAQUEN'', tipo_unidad = ''CAI CODITO'',
                 codigo_cuadrante = ''MEBOGMNVCCC01E01C02000004'', cuadrante_dir = ''004'',
                 numero_celular_cuadrante = ''3001234567''\<rparr>],
             directorioLoaded = True, lastLoadAttempt = 1000\<rparr>, 0::nat))
   = Some \<lparr>departamento = ''METROPOLITANA DE BOGOTA'', ciudad_municipio = ''BOGOTA D.C.'',
           unidad_dir = ''ESTACION DE POLICIA USAQUEN'', tipo_unidad = ''CAI CODITO'',
           codigo_cuadrante = ''MEBOGMNVCCC01E01C02000004'', cuadrante_dir = ''004'',
           numero_celular_cuadrante = ''3001234567''\<rparr>"
proof -
  let ?d = "\<lparr>departamento = ''METROPOLITANA DE BOGOTA'', ciudad_municipio = ''BOGOTA D.C.'',
            unidad_dir = ''ESTACION DE POLICIA USAQUEN'', tipo_unidad = ''CAI CODITO'',
            codigo_cuadrante = ''MEBOGMNVCCC01E01C02000004'', cuadrante_dir = ''004'',
            numero_celular_cuadrante = ''3001234567''\<rparr>"
  show ?thesis
    using failed_refresh_keeps_snapshot
      [of "\<lparr>cachedDirectorio = [?d], directorioLoaded = True, lastLoadAttempt = 1000\<rparr>"
          "\<lambda>n. (Rejected \<lparr>message = ''Failed to fetch''\<rparr>, Suc n)" "0::nat" 7201000
          "''300 123-4567''"]
    by (simp add: only_digits_def is_digit_def)
qed

section \<open>Properties of the distance and of the nearest-neighbour search\<close>










subsection \<open>The loop returns a nearest entry within the cutoff\<close>





section \<open>Properties of the roster processing\<close>
















section \<open>Properties of the code grammar\<close>

subsection \<open>What the tokens match\<close>

lemma lit_eq_Some: "lit l s = Some (m, r) \<longleftrightarrow> m = l \<and> s = l @ r"
  by (auto simp: lit_def) (metis append_take_drop_id)

lemma lit_eq_None: "lit l s = None \<longleftrightarrow> take (length l) s \<noteq> l"
  by (simp add: lit_def)

lemma chars_eq_Some:
  "chars n P s = Some (m, r) \<longleftrightarrow> length m = n \<and> list_all P m \<and> s = m @ r"
  by (auto simp: chars_def) 

lemma then_tok_eq_Some:
  "then_tok t1 t2 s = Some (m, r) \<longleftrightarrow>
     (\<exists>m1 r1 m2. t1 s = Some (m1, r1) \<and> t2 r1 = Some (m2, r) \<and> m = m1 @ m2)"
  by (auto simp: then_tok_def split: option.splits)

lemma length2: "length m = 2 \<longleftrightarrow> (\<exists>a b. m = [a, b])"
  by (auto simp: length_Suc_conv numeral_2_eq_2)

lemma length6: "length m = 6 \<longleftrightarrow> (\<exists>a b c d e f. m = [a, b, c, d, e, f])"
  by (auto simp: length_Suc_conv eval_nat_numeral)

lemma length5: "length m = 5 \<longleftrightarrow> (\<exists>a b c d e. m = [a, b, c, d, e])"
  by (auto simp: length_Suc_conv eval_nat_numeral)

lemma station_tok_eq_Some:
  "station_tok s = Some (m, r) \<longleftrightarrow>
     (\<exists>a b. is_digit a \<and> is_digit b \<and> m = [CHR ''E'', a, b] \<and> s = m @ r)"
  by (auto simp: station_tok_def then_tok_eq_Some lit_eq_Some chars_eq_Some length2)

lemma cai_tok_eq_Some:
  "cai_tok s = Some (m, r) \<longleftrightarrow>
     (\<exists>a b. is_digit a \<and> is_digit b \<and> m = [CHR ''C'', a, b] \<and> s = m @ r)"
  by (auto simp: cai_tok_def then_tok_eq_Some lit_eq_Some chars_eq_Some length2)





lemma digit_not_upper: "is_digit c \<Longrightarrow> \<not> is_upper c"
  by (auto simp: is_digit_def is_upper_def)


lemmas tok_defs = unit_tok_def model_tok_def district_tok_def station_tok_def cai_tok_def
  subunit_tok_def serial_tok_def lit_def chars_def then_tok_def or_tok_def req_def opt_def eoi_def



lemma upper_char_other: "c \<notin> set ''abcdefghijklmnopqrstuvwxyz'' \<Longrightarrow> upper_char c = c"
  by (simp add: upper_char_def)

lemma upper_not_lower: "is_upper c \<or> is_digit c \<Longrightarrow> c \<notin> set ''abcdefghijklmnopqrstuvwxyz''"
  unfolding is_upper_def is_digit_def by (elim disjE) auto

lemma upper_char_fixed: "is_upper c \<or> is_digit c \<Longrightarrow> upper_char c = c"
  by (intro upper_char_other upper_not_lower)

lemma not_space: "is_upper c \<or> is_digit c \<Longrightarrow> \<not> is_space c"
  by (auto simp: is_upper_def is_digit_def is_space_def)

lemma toUpperCase_fixed: "list_all (\<lambda>c. is_upper c \<or> is_digit c) s \<Longrightarrow> toUpperCase s = s"
  by (induction s) (simp_all add: toUpperCase_def upper_char_fixed)

lemma dropWhile_space_fixed: "list_all (\<lambda>c. is_upper c \<or> is_digit c) s \<Longrightarrow> dropWhile is_space s = s"
  by (cases s) (simp_all add: not_space)

lemma trim_fixed: "list_all (\<lambda>c. is_upper c \<or> is_digit c) s \<Longrightarrow> trim s = s"
proof -
  assume a: "list_all (\<lambda>c. is_upper c \<or> is_digit c) s"
  then have "list_all (\<lambda>c. is_upper c \<or> is_digit c) (rev s)" by (simp add: list_all_iff)
  then have "dropWhile is_space (rev s) = rev s" by (rule dropWhile_space_fixed)
  with a show ?thesis by (simp add: trim_def dropWhile_space_fixed)
qed

lemma normalized_fixed:
  "list_all (\<lambda>c. is_upper c \<or> is_digit c) s \<Longrightarrow> trim (toUpperCase s) = s"
  by (simp add: toUpperCase_fixed trim_fixed)

lemma or_tok_eq_Some:
  "or_tok t1 t2 s = Some r \<longleftrightarrow> t1 s = Some r \<or> (t1 s = None \<and> t2 s = Some r)"
  by (simp add: or_tok_def split: option.splits)

lemma s_tok_eq_Some:
  "then_tok (lit ''S'') (chars 2 is_digit) s = Some (m, r) \<longleftrightarrow>
     (\<exists>a b. is_digit a \<and> is_digit b \<and> m = [CHR ''S'', a, b] \<and> s = m @ r)"
  by (auto simp: then_tok_eq_Some lit_eq_Some chars_eq_Some length2)

lemma cai_tok_S: "cai_tok (CHR ''S'' # s) = None"
  by (simp add: cai_tok_def then_tok_def lit_def)

lemma is_token_subunit:
  "is_token subunit_tok s \<longleftrightarrow>
     (\<exists>x a b. (x = CHR ''C'' \<or> x = CHR ''S'') \<and> is_digit a \<and> is_digit b \<and> s = [x, a, b])"
proof
  assume "is_token subunit_tok s"
  then have "cai_tok s = Some (s, []) \<or> then_tok (lit ''S'') (chars 2 is_digit) s = Some (s, [])"
    by (auto simp: is_token_def subunit_tok_def or_tok_eq_Some)
  then show "\<exists>x a b. (x = CHR ''C'' \<or> x = CHR ''S'') \<and> is_digit a \<and> is_digit b \<and> s = [x, a, b]"
    unfolding cai_tok_eq_Some s_tok_eq_Some by blast
next
  assume "\<exists>x a b. (x = CHR ''C'' \<or> x = CHR ''S'') \<and> is_digit a \<and> is_digit b \<and> s = [x, a, b]"
  then obtain x a b where x: "x = CHR ''C'' \<or> x = CHR ''S''" and d: "is_digit a" "is_digit b"
    and s: "s = [x, a, b]" by blast
  from x show "is_token subunit_tok s"
  proof
    assume "x = CHR ''C''"
    with d s have "cai_tok s = Some (s, [])" by (simp add: cai_tok_eq_Some)
    then show ?thesis by (simp add: is_token_def subunit_tok_def or_tok_eq_Some)
  next
    assume "x = CHR ''S''"
    with d s have "then_tok (lit ''S'') (chars 2 is_digit) s = Some (s, [])" "cai_tok s = None"
      by (simp_all add: s_tok_eq_Some cai_tok_S)
    then show ?thesis by (simp add: is_token_def subunit_tok_def or_tok_eq_Some)
  qed
qed

lemma is_token_station:
  "is_token station_tok s \<longleftrightarrow> (\<exists>a b. is_digit a \<and> is_digit b \<and> s = [CHR ''E'', a, b])"
  by (auto simp: is_token_def station_tok_eq_Some)

lemma length1: "length m = 1 \<longleftrightarrow> (\<exists>a. m = [a])"
  by (auto simp: length_Suc_conv)

lemma district_tok_eq_Some:
  "district_tok s = Some (m, r) \<longleftrightarrow>
     (\<exists>x a b. is_CDS x \<and> is_digit a \<and> is_digit b \<and> m = [x, a, b] \<and> s = m @ r)"
proof
  assume "district_tok s = Some (m, r)"
  then obtain m1 r1 m2 where 1: "chars 1 is_CDS s = Some (m1, r1)"
    and 2: "chars 2 is_digit r1 = Some (m2, r)" and m: "m = m1 @ m2"
    unfolding district_tok_def then_tok_eq_Some by blast
  from 1 obtain x where "m1 = [x]" "is_CDS x" "s = m1 @ r1"
    unfolding chars_eq_Some length1 by auto
  moreover from 2 obtain a b where "m2 = [a, b]" "is_digit a" "is_digit b" "r1 = m2 @ r"
    unfolding chars_eq_Some length2 by auto
  ultimately show "\<exists>x a b. is_CDS x \<and> is_digit a \<and> is_digit b \<and> m = [x, a, b] \<and> s = m @ r"
    using m by auto
next
  assume "\<exists>x a b. is_CDS x \<and> is_digit a \<and> is_digit b \<and> m = [x, a, b] \<and> s = m @ r"
  then obtain x a b where "is_CDS x" "is_digit a" "is_digit b" "m = [x, a, b]" "s = m @ r" by blast
  then show "district_tok s = Some (m, r)"
    by (simp add: district_tok_def then_tok_def chars_def)
qed

lemma is_token_district:
  "is_token district_tok s \<longleftrightarrow>
     (\<exists>x a b. is_CDS x \<and> is_digit a \<and> is_digit b \<and> s = [x, a, b])"
  by (auto simp: is_token_def district_tok_eq_Some)

lemma is_token_unit:
  "is_token unit_tok s \<longleftrightarrow>
     (\<exists>a b c d e. is_upper a \<and> is_upper b \<and> is_upper c \<and> is_upper d \<and> is_upper e \<and> s = [a, b, c, d, e])"
  by (auto simp: is_token_def unit_tok_def chars_eq_Some length5)

lemma is_token_serial:
  "is_token serial_tok s \<longleftrightarrow>
     (\<exists>a b c d e f. is_digit a \<and> is_digit b \<and> is_digit c \<and> is_digit d \<and> is_digit e \<and> is_digit f
        \<and> s = [a, b, c, d, e, f])"
  by (auto simp: is_token_def serial_tok_def chars_eq_Some length6)

lemma is_token_model: "is_token model_tok s \<longleftrightarrow> s = ''MNVCC''"
  by (auto simp: is_token_def model_tok_def lit_eq_Some)

subsection \<open>The order of the grammars\<close>







subsection \<open>The derived station-and-subunit key\<close>

lemma CDS_upper: "is_CDS c \<Longrightarrow> is_upper c"
  by (auto simp: is_CDS_def is_upper_def)

lemma letters_upper:
  "is_upper (CHR ''E'')" "is_upper (CHR ''C'')" "is_upper (CHR ''S'')"
  "is_upper (CHR ''M'')" "is_upper (CHR ''N'')" "is_upper (CHR ''V'')"
  by (simp_all add: is_upper_def)

lemma CDS_not_M: "is_CDS c \<Longrightarrow> c \<noteq> CHR ''M'' \<and> c \<noteq> CHR ''E''"
  by (auto simp: is_CDS_def)

lemma not_CDS:
  "\<not> is_CDS (CHR ''E'')" "\<not> is_CDS (CHR ''M'')" "is_digit c \<Longrightarrow> \<not> is_CDS c"
  by (auto simp: is_CDS_def is_digit_def)

text \<open>
  C4. A long-form code is an optional unit, an optional model marker, an optional
  district, a station, and here a subunit, then an optional serial. For every such code
  the parser succeeds, its station and subunit fields are the station and the subunit of
  the code, and \<^verbatim>\<open>estacionCAI\<close> is the two side by side, as they stand in the code.
\<close>

theorem estacionCAI_of_long_form:
  assumes u: "u = [] \<or> is_token unit_tok u"
    and m: "m = [] \<or> is_token model_tok m"
    and d: "d = [] \<or> is_token district_tok d"
    and st: "is_token station_tok st"
    and su: "is_token subunit_tok su"
    and q: "q = [] \<or> is_token serial_tok q"
  shows "\<exists>r. parseSIVICCCode (u @ m @ d @ st @ su @ q) = Some r
           \<and> estacion r = Some st \<and> cai r = Some su \<and> estacionCAI r = Some (st @ su)"
  using assms
  unfolding is_token_unit is_token_model is_token_district is_token_station is_token_subunit
    is_token_serial
  apply (elim disjE exE conjE)
  apply (simp_all add: parseSIVICCCode_def normalized_fixed letters_upper CDS_upper
            sivicc_shortMatch_def sivicc_longMatch_def tok_defs digit_not_upper
            short_result_def long_result_def CDS_not_M not_CDS Let_def)
  done

text \<open>Witness for C4: the example of the source's documentation.\<close>

theorem estacionCAI_of_long_form_witness:
  "map_option estacionCAI (parseSIVICCCode ''MEBOGMNVCCC01E15C02000033'') = Some (Some ''E15C02'')
   \<and> map_option estacion (parseSIVICCCode ''MEBOGMNVCCC01E15C02000033'') = Some (Some ''E15'')
   \<and> map_option cai (parseSIVICCCode ''MEBOGMNVCCC01E15C02000033'') = Some (Some ''C02'')"
proof -
  have "is_token unit_tok ''MEBOG''" "is_token model_tok ''MNVCC''" "is_token district_tok ''C01''"
    "is_token station_tok ''E15''" "is_token subunit_tok ''C02''" "is_token serial_tok ''000033''"
    by (simp_all add: is_token_def tok_defs is_upper_def is_digit_def is_CDS_def)
  with estacionCAI_of_long_form [of "''MEBOG''" "''MNVCC''" "''C01''" "''E15''" "''C02''" "''000033''"]
  show ?thesis by auto
qed

subsection \<open>Precedence of the long grammar\<close>




section \<open>Properties of the WebMap index lookup\<close>




end
